theory Spec2Isabelle
  imports Main "HOL-Library.Multiset"
begin

section \<open>Out-of-office redirects: the handlers of outOfOffice.handler.ts\<close>

text \<open>
  The three handlers \<open>outOfOfficeCreate\<close>, \<open>outOfOfficeEntryDelete\<close> and
  \<open>outOfOfficeEntriesList\<close> are embedded as functions over an explicit database
  value. A handler that throws a \<open>TRPCError\<close> returns \<open>Inl\<close> of the error together with
  the database as it is at the moment of the throw.
\<close>

subsection \<open>Instants and the day arithmetic of dayjs\<close>

text \<open>
  An instant is a number of milliseconds since the epoch, as in a JavaScript \<open>Date\<close>.
  The server's time zone is a fixed UTC offset in minutes, which is what
  \<open>dayjs(...).utcOffset()\<close> returns; daylight-saving changes are outside the model.
  \<open>startOf("day")\<close> and \<open>endOf("day")\<close> work on the server-local calendar day.
\<close>

type_synonym instant = int

definition local_day :: "int \<Rightarrow> instant \<Rightarrow> int" where
  "local_day off t = (t + off * 60000) div 86400000"

definition startOf_day :: "int \<Rightarrow> instant \<Rightarrow> instant" where
  "startOf_day off t = t - (t + off * 60000) mod 86400000"

definition endOf_day :: "int \<Rightarrow> instant \<Rightarrow> instant" where
  "endOf_day off t = startOf_day off t + 86399999"

definition subtract_minutes :: "instant \<Rightarrow> int \<Rightarrow> instant" where
  "subtract_minutes t n = t - n * 60000"

subsection \<open>Data model\<close>

record user =
  u_id :: int
  u_email :: string
  u_username :: "string option"

record entry =
  e_id :: int
  e_uuid :: string
  e_start :: instant
  e_end :: instant
  e_userId :: int
  e_toUserId :: "int option"
  e_createdAt :: instant
  e_updatedAt :: instant

text \<open>One call of \<open>sendBookingRedirectNotification\<close>; the dates are the created
  entry's start and end, which the handler formats with \<open>Intl.DateTimeFormat\<close>.\<close>

record notification =
  n_fromEmail :: string
  n_toEmail :: string
  n_toName :: string
  n_dates :: "instant \<times> instant"

text \<open>The database: the two tables the handlers touch, the sequence behind the
  store-assigned \<open>id\<close>, and the notifications sent so far.\<close>

record db =
  users :: "user list"
  entries :: "entry list"
  seq :: int
  outbox :: "notification list"

text \<open>\<open>ctx.user\<close>, the calling principal.\<close>

record session_user =
  su_id :: int
  su_email :: string
  su_username :: "string option"
  su_locale :: "string option"

text \<open>What a call reads from its surroundings: the server's UTC offset in minutes,
  the current instant (\<open>dayjs()\<close>, \<open>new Date()\<close>) and the value \<open>uuidv4()\<close> returns.\<close>

record env =
  utcOffset :: int
  now :: instant
  uuidv4 :: string

text \<open>The input of \<open>outOfOfficeCreate\<close>. The dates are the instants \<open>dayjs\<close> parses
  from the fields; \<open>None\<close> is an absent or empty field.\<close>

record create_input =
  startDate :: "instant option"
  endDate :: "instant option"
  toTeamUserId :: "int option"

datatype code = BAD_REQUEST | NOT_FOUND | CONFLICT

text \<open>What a handler throws: a \<open>TRPCError\<close> of its own, or the error of a Prisma query
  that the handler does not catch, with Prisma's error code.\<close>

datatype thrown = TRPCError code string | PrismaClientKnownRequestError string

type_synonym 'a result = "thrown + 'a"

text \<open>The error kinds of the specification; a Prisma error is none of them.\<close>

datatype error_kind = InvalidInput | NotFound | Conflict

fun kind_of :: "thrown \<Rightarrow> error_kind option" where
  "kind_of (TRPCError BAD_REQUEST m) = Some InvalidInput"
| "kind_of (TRPCError NOT_FOUND m) = Some NotFound"
| "kind_of (TRPCError CONFLICT m) = Some Conflict"
| "kind_of (PrismaClientKnownRequestError c) = None"

definition fails_with :: "error_kind \<Rightarrow> 'a result \<Rightarrow> bool" where
  "fails_with k r = (case r of Inl err \<Rightarrow> kind_of err = Some k | Inr v \<Rightarrow> False)"

subsection \<open>The queries of outOfOfficeCreate\<close>

text \<open>The \<open>OR\<close> of the self-conflict query (source lines 69 to 92), on one entry.\<close>

definition overlaps_window :: "instant \<Rightarrow> instant \<Rightarrow> entry \<Rightarrow> bool" where
  "overlaps_window inputStartTime inputEndTime x \<longleftrightarrow>
     (e_start x < inputEndTime \<and> e_end x > inputStartTime)
   \<or> (e_start x > inputStartTime \<and> e_start x < inputEndTime)
   \<or> (e_end x > inputStartTime \<and> e_end x < inputEndTime)"

text \<open>The \<open>OR\<close> of the infinite-redirect query (source lines 113 to 128).\<close>

definition collides_window :: "instant \<Rightarrow> instant \<Rightarrow> entry \<Rightarrow> bool" where
  "collides_window inputStartTime inputEndTime x \<longleftrightarrow>
     (e_start x \<le> inputEndTime \<and> e_end x \<ge> inputStartTime)
   \<or> (e_start x \<ge> inputStartTime \<and> e_end x \<le> inputEndTime)"

text \<open>The whole \<open>where\<close> of the self-conflict query.\<close>

definition own_conflict :: "int \<Rightarrow> instant \<Rightarrow> instant \<Rightarrow> entry \<Rightarrow> bool" where
  "own_conflict uid inputStartTime inputEndTime x \<longleftrightarrow>
     e_userId x = uid \<and> overlaps_window inputStartTime inputEndTime x"

text \<open>The whole \<open>where\<close> of the infinite-redirect query. Prisma drops a filter whose
  value is \<open>undefined\<close>, so \<open>userId: toUserId\<close> filters only when a delegate was
  resolved.\<close>

definition back_redirect :: "int option \<Rightarrow> int \<Rightarrow> instant \<Rightarrow> instant \<Rightarrow> entry \<Rightarrow> bool" where
  "back_redirect toUserId uid inputStartTime inputEndTime x \<longleftrightarrow>
     (case toUserId of None \<Rightarrow> True | Some d \<Rightarrow> e_userId x = d)
   \<and> e_toUserId x = Some uid
   \<and> collides_window inputStartTime inputEndTime x"

text \<open>\<open>if (input.toTeamUserId)\<close>: absent and \<open>0\<close> are both falsy.\<close>

definition given_id :: "int option \<Rightarrow> bool" where
  "given_id v = (case v of None \<Rightarrow> False | Some n \<Rightarrow> n \<noteq> 0)"

text \<open>The \<open>id\<close> column of \<open>User\<close> is a 32-bit integer (Prisma \<open>Int\<close>), while
  \<open>toTeamUserId\<close> is any integer of the request.\<close>

definition in_int4 :: "int \<Rightarrow> bool" where
  "in_int4 n \<longleftrightarrow> - 2147483648 \<le> n \<and> n \<le> 2147483647"

definition fits_id_column :: "int option \<Rightarrow> bool" where
  "fits_id_column v = (case v of None \<Rightarrow> True | Some n \<Rightarrow> in_int4 n)"

text \<open>Source lines 46 to 61: the delegate, or \<open>NOT_FOUND\<close>. A stored id is a value of
  the column, so an id outside its range finds no user; for such an id \<open>findUnique\<close>
  does not return \<open>null\<close> but throws Prisma's \<open>P2020\<close> (value out of range), which
  the handler lets through.\<close>

definition resolve_delegate :: "db \<Rightarrow> int option \<Rightarrow> (int option) result" where
  "resolve_delegate w v =
     (if given_id v then
        (case find (\<lambda>u. Some (u_id u) = v) (users w) of
           None \<Rightarrow>
             if fits_id_column v then Inl (TRPCError NOT_FOUND ''user_not_found'')
             else Inl (PrismaClientKnownRequestError ''P2020'')
         | Some u \<Rightarrow> Inr (Some (u_id u)))
      else Inr None)"

text \<open>The instant of the future-dating check (source lines 38 to 40).\<close>

definition today_threshold :: "env \<Rightarrow> instant" where
  "today_threshold ev =
     subtract_minutes (startOf_day (utcOffset ev) (now ev)) (\<bar>utcOffset ev\<bar> * 60)"

text \<open>Source lines 137 to 147: the insert.\<close>

definition create_entry :: "env \<Rightarrow> int \<Rightarrow> instant \<Rightarrow> instant \<Rightarrow> int option \<Rightarrow> db \<Rightarrow> entry" where
  "create_entry ev uid sd ed toUserId w =
     \<lparr> e_id = seq w + 1, e_uuid = uuidv4 ev,
       e_start = startOf_day (utcOffset ev) sd, e_end = endOf_day (utcOffset ev) ed,
       e_userId = uid, e_toUserId = toUserId,
       e_createdAt = now ev, e_updatedAt = now ev \<rparr>"

text \<open>Source lines 149 to 171: notify the delegate when it has an email. The translation
  lookup and the sending itself are taken to succeed.\<close>

definition notify :: "session_user \<Rightarrow> entry \<Rightarrow> db \<Rightarrow> db" where
  "notify usr createdRedirect w =
     (case e_toUserId createdRedirect of
        None \<Rightarrow> w
      | Some d \<Rightarrow>
          if d = 0 then w
          else (case find (\<lambda>u. u_id u = d) (users w) of
                  None \<Rightarrow> w
                | Some userToNotify \<Rightarrow>
                    if u_email userToNotify = [] then w
                    else w\<lparr>outbox := outbox w @
                      [\<lparr> n_fromEmail = su_email usr, n_toEmail = u_email userToNotify,
                         n_toName = (case su_username usr of None \<Rightarrow> [] | Some n \<Rightarrow> n),
                         n_dates = (e_start createdRedirect, e_end createdRedirect) \<rparr>]\<rparr>))"

subsection \<open>The handlers\<close>

definition outOfOfficeCreate ::
    "env \<Rightarrow> session_user \<Rightarrow> create_input \<Rightarrow> db \<Rightarrow> unit result \<times> db" where
  "outOfOfficeCreate ev usr input w =
     (case startDate input of
        None \<Rightarrow> (Inl (TRPCError BAD_REQUEST ''start_date_and_end_date_required''), w)
      | Some sd \<Rightarrow>
     (case endDate input of
        None \<Rightarrow> (Inl (TRPCError BAD_REQUEST ''start_date_and_end_date_required''), w)
      | Some ed \<Rightarrow>
          let inputStartTime = startOf_day (utcOffset ev) sd;
              inputEndTime = endOf_day (utcOffset ev) ed
          in
          if inputStartTime > inputEndTime then
            (Inl (TRPCError BAD_REQUEST ''start_date_must_be_before_end_date''), w)
          else if inputStartTime < today_threshold ev then
            (Inl (TRPCError BAD_REQUEST ''start_date_must_be_in_the_future''), w)
          else
            (case resolve_delegate w (toTeamUserId input) of
               Inl err \<Rightarrow> (Inl err, w)
             | Inr toUserId \<Rightarrow>
                 if find (own_conflict (su_id usr) inputStartTime inputEndTime) (entries w) \<noteq> None
                 then (Inl (TRPCError CONFLICT ''out_of_office_entry_already_exists''), w)
                 else if find (back_redirect toUserId (su_id usr) inputStartTime inputEndTime)
                           (entries w) \<noteq> None
                 then (Inl (TRPCError BAD_REQUEST ''booking_redirect_infinite_not_allowed''), w)
                 else
                   let createdRedirect = create_entry ev (su_id usr) sd ed toUserId w;
                       w' = w\<lparr>entries := entries w @ [createdRedirect], seq := seq w + 1\<rparr>
                   in (Inr (), notify usr createdRedirect w'))))"

text \<open>\<open>if (!input.outOfOfficeUid)\<close>: absent and the empty string are both falsy.
  \<open>uuid\<close> is a unique column, so \<open>delete\<close> by uuid removes what has that uuid.\<close>

definition missing_uid :: "string option \<Rightarrow> bool" where
  "missing_uid v = (case v of None \<Rightarrow> True | Some s \<Rightarrow> s = [])"

definition outOfOfficeEntryDelete ::
    "session_user \<Rightarrow> string option \<Rightarrow> db \<Rightarrow> unit result \<times> db" where
  "outOfOfficeEntryDelete usr outOfOfficeUid w =
     (if missing_uid outOfOfficeUid then
        (Inl (TRPCError BAD_REQUEST ''out_of_office_id_required''), w)
      else
        (case find (\<lambda>x. Some (e_uuid x) = outOfOfficeUid \<and> e_userId x = su_id usr) (entries w) of
           None \<Rightarrow> (Inl (TRPCError NOT_FOUND ''booking_redirect_not_found''), w)
         | Some outOfOfficeEntry \<Rightarrow>
             (Inr (), w\<lparr>entries := filter (\<lambda>x. Some (e_uuid x) \<noteq> outOfOfficeUid) (entries w)\<rparr>)))"

text \<open>A row of \<open>outOfOfficeEntriesList\<close>: the \<open>select\<close> of source lines 224 to 235.
  \<open>toUser\<close> is \<open>null\<close> without a delegate; a user's \<open>username\<close> may itself be \<open>null\<close>.\<close>

record row =
  r_id :: int
  r_uuid :: string
  r_start :: instant
  r_end :: instant
  r_toUserId :: "int option"
  r_toUser :: "(string option) option"

definition select_row :: "db \<Rightarrow> entry \<Rightarrow> row" where
  "select_row w x =
     \<lparr> r_id = e_id x, r_uuid = e_uuid x, r_start = e_start x, r_end = e_end x,
       r_toUserId = e_toUserId x,
       r_toUser = (case e_toUserId x of
                     None \<Rightarrow> None
                   | Some d \<Rightarrow> map_option u_username (find (\<lambda>u. u_id u = d) (users w))) \<rparr>"

text \<open>\<open>orderBy: { start: "desc" }\<close> as a stable sort on the negated start.\<close>

definition outOfOfficeEntriesList :: "instant \<Rightarrow> session_user \<Rightarrow> db \<Rightarrow> row list" where
  "outOfOfficeEntriesList current usr w =
     map (select_row w)
       (sort_key (\<lambda>x. - e_start x)
          (filter (\<lambda>x. e_userId x = su_id usr \<and> e_end x \<ge> current) (entries w)))"


subsection \<open>Data of the worked examples\<close>

text \<open>Midnight UTC of a day of January, February and March 2024.\<close>

definition jan :: "int \<Rightarrow> instant" where
  "jan d = 1704067200000 + (d - 1) * 86400000"

definition feb :: "int \<Rightarrow> instant" where
  "feb d = 1706745600000 + (d - 1) * 86400000"

definition mar :: "int \<Rightarrow> instant" where
  "mar d = 1709251200000 + (d - 1) * 86400000"

definition hours :: "int \<Rightarrow> int" where
  "hours h = h * 3600000"

text \<open>A server on UTC at the given instant, and a server one hour east of UTC.\<close>

definition utc_server :: "instant \<Rightarrow> string \<Rightarrow> env" where
  "utc_server t u = \<lparr> utcOffset = 0, now = t, uuidv4 = u \<rparr>"

definition cet_server :: "instant \<Rightarrow> string \<Rightarrow> env" where
  "cet_server t u = \<lparr> utcOffset = 60, now = t, uuidv4 = u \<rparr>"

definition ctx_A :: session_user where
  "ctx_A = \<lparr> su_id = 1, su_email = ''a@example.com'', su_username = Some ''ann'', su_locale = None \<rparr>"

definition ctx_B :: session_user where
  "ctx_B = \<lparr> su_id = 2, su_email = ''b@example.com'', su_username = Some ''bob'', su_locale = None \<rparr>"

definition ctx_C :: session_user where
  "ctx_C = \<lparr> su_id = 3, su_email = ''c@example.com'', su_username = None, su_locale = None \<rparr>"

definition some_users :: "user list" where
  "some_users =
     [\<lparr> u_id = 1, u_email = ''a@example.com'', u_username = Some ''ann'' \<rparr>,
      \<lparr> u_id = 2, u_email = ''b@example.com'', u_username = Some ''bob'' \<rparr>,
      \<lparr> u_id = 3, u_email = ''c@example.com'', u_username = None \<rparr>]"

definition store0 :: db where
  "store0 = \<lparr> users = some_users, entries = [], seq = 0, outbox = [] \<rparr>"

definition window :: "instant \<Rightarrow> instant \<Rightarrow> int option \<Rightarrow> create_input" where
  "window sd ed d = \<lparr> startDate = Some sd, endDate = Some ed, toTeamUserId = d \<rparr>"

text \<open>A's entry for 10 to 15 January, without a delegate, and the store holding it.\<close>

definition entry_A :: entry where
  "entry_A = \<lparr> e_id = 1, e_uuid = ''u-1'', e_start = jan 10, e_end = jan 16 - 1,
                e_userId = 1, e_toUserId = None, e_createdAt = jan 1, e_updatedAt = jan 1 \<rparr>"

definition store_A :: db where
  "store_A = store0\<lparr>entries := [entry_A], seq := 1\<rparr>"

text \<open>A's redirect to B for 1 to 5 February, the notification it sends, and the store
  holding it.\<close>

definition entry_AB :: entry where
  "entry_AB = \<lparr> e_id = 1, e_uuid = ''u-1'', e_start = feb 1, e_end = feb 6 - 1,
                 e_userId = 1, e_toUserId = Some 2,
                 e_createdAt = jan 20, e_updatedAt = jan 20 \<rparr>"

definition mail_AB :: notification where
  "mail_AB = \<lparr> n_fromEmail = ''a@example.com'', n_toEmail = ''b@example.com'',
                n_toName = ''ann'', n_dates = (feb 1, feb 6 - 1) \<rparr>"

definition store_AB :: db where
  "store_AB = store0\<lparr>entries := [entry_AB], seq := 1, outbox := [mail_AB]\<rparr>"

text \<open>B's own entry for 4 February, made before A's redirect to B.\<close>

definition entry_B :: entry where
  "entry_B = \<lparr> e_id = 1, e_uuid = ''u-0'', e_start = feb 4, e_end = feb 5 - 1,
                e_userId = 2, e_toUserId = None,
                e_createdAt = jan 19, e_updatedAt = jan 19 \<rparr>"

definition store_B_AB :: db where
  "store_B_AB = store0\<lparr>entries := [entry_B, entry_AB\<lparr>e_id := 2\<rparr>], seq := 2,
                        outbox := [mail_AB]\<rparr>"

text \<open>C's redirect to A for 1 to 5 February, alone and after an entry of A's own for the
  same days.\<close>

definition entry_CA :: entry where
  "entry_CA = \<lparr> e_id = 1, e_uuid = ''u-1'', e_start = feb 1, e_end = feb 6 - 1,
                 e_userId = 3, e_toUserId = Some 1,
                 e_createdAt = jan 20, e_updatedAt = jan 20 \<rparr>"

definition mail_CA :: notification where
  "mail_CA = \<lparr> n_fromEmail = ''c@example.com'', n_toEmail = ''a@example.com'',
                n_toName = [], n_dates = (feb 1, feb 6 - 1) \<rparr>"

definition store_CA :: db where
  "store_CA = store0\<lparr>entries := [entry_CA], seq := 1, outbox := [mail_CA]\<rparr>"

definition entry_A_feb :: entry where
  "entry_A_feb = \<lparr> e_id = 1, e_uuid = ''u-0'', e_start = feb 1, e_end = feb 6 - 1,
                    e_userId = 1, e_toUserId = None,
                    e_createdAt = jan 19, e_updatedAt = jan 19 \<rparr>"

definition store_A_CA :: db where
  "store_A_CA = store0\<lparr>entries := [entry_A_feb, entry_CA\<lparr>e_id := 2\<rparr>], seq := 2,
                        outbox := [mail_CA]\<rparr>"

text \<open>A store with two entries of A and one of B, and the rows A's entries list as.\<close>

definition store_L :: db where
  "store_L = store0\<lparr>entries := [entry_A, entry_B\<lparr>e_id := 2\<rparr>,
                                  entry_AB\<lparr>e_id := 3, e_uuid := ''u-2''\<rparr>],
                     seq := 3, outbox := [mail_AB]\<rparr>"

definition row_A :: row where
  "row_A = \<lparr> r_id = 1, r_uuid = ''u-1'', r_start = jan 10, r_end = jan 16 - 1,
              r_toUserId = None, r_toUser = None \<rparr>"

definition row_AB :: row where
  "row_AB = \<lparr> r_id = 3, r_uuid = ''u-2'', r_start = feb 1, r_end = feb 6 - 1,
               r_toUserId = Some 2, r_toUser = Some (Some ''bob'') \<rparr>"

lemmas handler_defs =
  outOfOfficeCreate_def outOfOfficeEntryDelete_def outOfOfficeEntriesList_def
  select_row_def notify_def create_entry_def today_threshold_def resolve_delegate_def
  given_id_def in_int4_def fits_id_column_def missing_uid_def back_redirect_def own_conflict_def collides_window_def
  overlaps_window_def subtract_minutes_def endOf_day_def startOf_day_def local_day_def
  fails_with_def

lemmas example_defs =
  jan_def feb_def mar_def hours_def utc_server_def cet_server_def ctx_A_def ctx_B_def
  ctx_C_def some_users_def store0_def window_def entry_A_def store_A_def entry_AB_def
  mail_AB_def store_AB_def entry_B_def store_B_AB_def entry_CA_def mail_CA_def store_CA_def
  entry_A_feb_def store_A_CA_def store_L_def row_A_def row_AB_def

section \<open>Properties\<close>

subsection \<open>Day arithmetic\<close>

lemma startOf_day_local_day:
  "startOf_day off t = local_day off t * 86400000 - off * 60000"
proof -
  have "(t + off * 60000) mod 86400000
      = (t + off * 60000) - (t + off * 60000) div 86400000 * 86400000"
    by (simp add: minus_div_mult_eq_mod)
  then show ?thesis
    by (simp add: startOf_day_def local_day_def)
qed

lemma day_block:
  fixes a b D :: int
  assumes "0 < D"
  shows "a * D + (D - 1) < b * D \<longleftrightarrow> a < b"
proof
  assume lt: "a * D + (D - 1) < b * D"
  show "a < b"
  proof (rule ccontr)
    assume "\<not> a < b"
    then have "b * D \<le> a * D" using assms by (simp add: mult_right_mono)
    with lt assms show False by simp
  qed
next
  assume "a < b"
  then have "(a + 1) * D \<le> b * D" using assms by (intro mult_right_mono) simp_all
  then show "a * D + (D - 1) < b * D" by (simp add: algebra_simps)
qed

lemma normalized_after_iff:
  "startOf_day off sd > endOf_day off ed \<longleftrightarrow> local_day off sd > local_day off ed"
  using day_block [of 86400000 "local_day off ed" "local_day off sd"]
  by (simp add: endOf_day_def startOf_day_local_day)

lemma normalized_start_before_end:
  assumes "\<not> startOf_day off sd > endOf_day off ed"
  shows "startOf_day off sd < endOf_day off ed"
proof -
  from assms have "local_day off sd \<le> local_day off ed"
    by (simp add: normalized_after_iff)
  then have "local_day off sd * 86400000 \<le> local_day off ed * 86400000"
    by simp
  then show ?thesis
    by (simp add: endOf_day_def startOf_day_local_day)
qed

lemma local_day_mono: "a \<le> b \<Longrightarrow> local_day off a \<le> local_day off b"
  by (simp add: local_day_def zdiv_mono1)

lemma day_aligned_less:
  assumes "startOf_day off a = a" and "startOf_day off b = b"
  shows "b < a \<longleftrightarrow> local_day off b < local_day off a"
proof -
  have "a = local_day off a * 86400000 - off * 60000"
    and "b = local_day off b * 86400000 - off * 60000"
    using assms by (simp_all add: startOf_day_local_day)
  then have "b < a \<longleftrightarrow> local_day off b * 86400000 < local_day off a * 86400000"
    by linarith
  then show ?thesis by simp
qed

subsection \<open>The stages of outOfOfficeCreate\<close>

lemma find_hit: "x \<in> set xs \<Longrightarrow> P x \<Longrightarrow> find P xs \<noteq> None"
  by (auto simp: find_None_iff)

lemma resolve_delegate_found:
  "given_id v \<Longrightarrow> u \<in> set (users w) \<Longrightarrow> Some (u_id u) = v \<Longrightarrow> resolve_delegate w v = Inr v"
  by (auto simp: resolve_delegate_def find_None_iff split: option.splits
           dest: find_Some_iff[THEN iffD1])

lemma resolve_delegate_missing:
  assumes "given_id v" and "fits_id_column v"
    and "\<not> (\<exists>u\<in>set (users w). Some (u_id u) = v)"
  shows "resolve_delegate w v = Inl (TRPCError NOT_FOUND ''user_not_found'')"
proof -
  have "find (\<lambda>u. Some (u_id u) = v) (users w) = None"
    using assms(3) by (auto simp: find_None_iff)
  with assms(1,2) show ?thesis by (simp add: resolve_delegate_def)
qed

lemma resolve_delegate_no_user:
  assumes "given_id v" and "\<not> (\<exists>u\<in>set (users w). Some (u_id u) = v)"
  shows "\<exists>err. resolve_delegate w v = Inl err"
proof -
  have "find (\<lambda>u. Some (u_id u) = v) (users w) = None"
    using assms(2) by (auto simp: find_None_iff)
  with assms(1) show ?thesis by (simp add: resolve_delegate_def)
qed

lemma resolve_delegate_absent:
  "\<not> given_id v \<Longrightarrow> resolve_delegate w v = Inr None"
  by (simp add: resolve_delegate_def)

lemma create_error_keeps_db:
  "outOfOfficeCreate ev usr input w = (Inl err, w') \<Longrightarrow> w' = w"
  by (auto simp: outOfOfficeCreate_def Let_def split: option.splits if_splits sum.splits)


lemma create_keeps_db_on_error:
  "fst (outOfOfficeCreate ev usr input w) \<noteq> Inr () \<Longrightarrow>
     snd (outOfOfficeCreate ev usr input w) = w"
  by (auto simp: outOfOfficeCreate_def Let_def split: option.splits if_splits sum.splits)

lemma create_start_after_end:
  "startDate input = Some sd \<Longrightarrow> endDate input = Some ed \<Longrightarrow>
   startOf_day (utcOffset ev) sd > endOf_day (utcOffset ev) ed \<Longrightarrow>
   outOfOfficeCreate ev usr input w =
     (Inl (TRPCError BAD_REQUEST ''start_date_must_be_before_end_date''), w)"
  by (simp add: outOfOfficeCreate_def)

lemma create_in_the_past:
  "startDate input = Some sd \<Longrightarrow> endDate input = Some ed \<Longrightarrow>
   \<not> startOf_day (utcOffset ev) sd > endOf_day (utcOffset ev) ed \<Longrightarrow>
   startOf_day (utcOffset ev) sd < today_threshold ev \<Longrightarrow>
   outOfOfficeCreate ev usr input w =
     (Inl (TRPCError BAD_REQUEST ''start_date_must_be_in_the_future''), w)"
  by (simp add: outOfOfficeCreate_def)

text \<open>Once the two date checks pass, the call is decided by the three queries.\<close>

lemma create_after_dates:
  "startDate input = Some sd \<Longrightarrow> endDate input = Some ed \<Longrightarrow>
   \<not> startOf_day (utcOffset ev) sd > endOf_day (utcOffset ev) ed \<Longrightarrow>
   \<not> startOf_day (utcOffset ev) sd < today_threshold ev \<Longrightarrow>
   outOfOfficeCreate ev usr input w =
     (case resolve_delegate w (toTeamUserId input) of
        Inl err \<Rightarrow> (Inl err, w)
      | Inr toUserId \<Rightarrow>
          if find (own_conflict (su_id usr) (startOf_day (utcOffset ev) sd)
                     (endOf_day (utcOffset ev) ed)) (entries w) \<noteq> None
          then (Inl (TRPCError CONFLICT ''out_of_office_entry_already_exists''), w)
          else if find (back_redirect toUserId (su_id usr) (startOf_day (utcOffset ev) sd)
                          (endOf_day (utcOffset ev) ed)) (entries w) \<noteq> None
          then (Inl (TRPCError BAD_REQUEST ''booking_redirect_infinite_not_allowed''), w)
          else (Inr (), notify usr (create_entry ev (su_id usr) sd ed toUserId w)
                  (w\<lparr>entries := entries w @ [create_entry ev (su_id usr) sd ed toUserId w],
                     seq := seq w + 1\<rparr>)))"
  by (simp add: outOfOfficeCreate_def Let_def split: sum.splits)

lemma notify_entries: "entries (notify usr x w) = entries w"
  by (simp add: notify_def split: option.splits)

lemma notify_users: "users (notify usr x w) = users w"
  by (simp add: notify_def split: option.splits)


lemma find_SomeD: "find P xs = Some x \<Longrightarrow> P x \<and> x \<in> set xs"
  by (auto simp: find_Some_iff)

lemma resolve_delegate_Inr:
  "resolve_delegate w v = Inr d \<Longrightarrow>
     (given_id v \<and> d = v \<and> (\<exists>u\<in>set (users w). Some (u_id u) = v))
   \<or> (\<not> given_id v \<and> d = None)"
  by (auto simp: resolve_delegate_def split: if_splits option.splits dest: find_SomeD)

lemma create_success:
  assumes "fst (outOfOfficeCreate ev usr input w) = Inr ()"
  shows "\<exists>sd ed d. startDate input = Some sd \<and> endDate input = Some ed
           \<and> resolve_delegate w (toTeamUserId input) = Inr d
           \<and> entries (snd (outOfOfficeCreate ev usr input w))
               = entries w @ [create_entry ev (su_id usr) sd ed d w]
           \<and> users (snd (outOfOfficeCreate ev usr input w)) = users w"
  using assms
  by (auto simp: outOfOfficeCreate_def Let_def notify_entries notify_users
           split: option.splits if_splits sum.splits)


lemma create_fails_on_back_redirect:
  assumes "startDate input = Some sd" and "endDate input = Some ed"
    and "x \<in> set (entries w)"
    and "\<And>d. resolve_delegate w (toTeamUserId input) = Inr d \<Longrightarrow>
           back_redirect d (su_id usr) (startOf_day (utcOffset ev) sd)
             (endOf_day (utcOffset ev) ed) x"
  shows "\<exists>err. outOfOfficeCreate ev usr input w = (Inl err, w)"
proof (cases "resolve_delegate w (toTeamUserId input)")
  case (Inl err)
  then show ?thesis
    using assms(1,2) by (simp add: outOfOfficeCreate_def Let_def)
next
  case (Inr d)
  then have "find (back_redirect d (su_id usr) (startOf_day (utcOffset ev) sd)
          (endOf_day (utcOffset ev) ed)) (entries w) \<noteq> None"
    using assms(3,4) by (intro find_hit [of x]) simp_all
  with Inr show ?thesis
    using assms(1,2) by (simp add: outOfOfficeCreate_def Let_def)
qed

text \<open>The example stores are reached from the empty one by calls of the handler.\<close>

lemma store_A_reached:
  "outOfOfficeCreate (utc_server (jan 1) ''u-1'') ctx_A (window (jan 10) (jan 15) None) store0
     = (Inr (), store_A)"
  by (simp add: handler_defs example_defs Let_def)

lemma store_AB_reached:
  "outOfOfficeCreate (utc_server (jan 20) ''u-1'') ctx_A (window (feb 1) (feb 5) (Some 2)) store0
     = (Inr (), store_AB)"
  by (simp add: handler_defs example_defs Let_def)

lemma store_B_AB_reached:
  "outOfOfficeCreate (utc_server (jan 20) ''u-1'') ctx_A (window (feb 1) (feb 5) (Some 2))
     (snd (outOfOfficeCreate (utc_server (jan 19) ''u-0'') ctx_B
             (window (feb 4) (feb 4) None) store0))
     = (Inr (), store_B_AB)"
  by (simp add: handler_defs example_defs Let_def)

lemma store_CA_reached:
  "outOfOfficeCreate (utc_server (jan 20) ''u-1'') ctx_C (window (feb 1) (feb 5) (Some 1)) store0
     = (Inr (), store_CA)"
  by (simp add: handler_defs example_defs Let_def)

lemma store_A_CA_reached:
  "outOfOfficeCreate (utc_server (jan 20) ''u-1'') ctx_C (window (feb 1) (feb 5) (Some 1))
     (snd (outOfOfficeCreate (utc_server (jan 19) ''u-0'') ctx_A
             (window (feb 1) (feb 5) None) store0))
     = (Inr (), store_A_CA)"
  by (simp add: handler_defs example_defs Let_def)


lemma sorted_desc_sort_key:
  "sorted_wrt (\<lambda>a b. f a \<ge> (f b :: int)) (sort_key (\<lambda>x. - f x) xs)"
proof -
  have "sorted (map (\<lambda>x. - f x) (sort_key (\<lambda>x. - f x) xs))"
    by (rule sorted_sort_key)
  then show ?thesis
    by (simp add: sorted_map)
qed

lemma today_threshold_ms:
  "today_threshold ev = startOf_day (utcOffset ev) (now ev) - \<bar>utcOffset ev\<bar> * 3600000"
  by (simp add: today_threshold_def subtract_minutes_def)

lemma disjoint_not_collides:
  "e_start x \<le> e_end x \<Longrightarrow> e_end x < s \<or> e < e_start x \<Longrightarrow> \<not> collides_window s e x"
  by (auto simp: collides_window_def)

lemma create_infinite_only_if:
  assumes "fst (outOfOfficeCreate ev usr input w)
             = Inl (TRPCError BAD_REQUEST ''booking_redirect_infinite_not_allowed'')"
  shows "\<exists>sd ed d x. startDate input = Some sd \<and> endDate input = Some ed
           \<and> resolve_delegate w (toTeamUserId input) = Inr d \<and> x \<in> set (entries w)
           \<and> back_redirect d (su_id usr) (startOf_day (utcOffset ev) sd)
                (endOf_day (utcOffset ev) ed) x"
  using assms
  by (auto simp: outOfOfficeCreate_def Let_def resolve_delegate_def
           split: option.splits if_splits sum.splits dest!: find_SomeD)

lemma create_succeeds:
  assumes "startDate input = Some sd" and "endDate input = Some ed"
    and "\<not> startOf_day (utcOffset ev) sd > endOf_day (utcOffset ev) ed"
    and "\<not> startOf_day (utcOffset ev) sd < today_threshold ev"
    and "resolve_delegate w (toTeamUserId input) = Inr d"
    and "\<not> (\<exists>y\<in>set (entries w). e_userId y = su_id usr
              \<and> overlaps_window (startOf_day (utcOffset ev) sd) (endOf_day (utcOffset ev) ed) y)"
    and "\<not> (\<exists>x\<in>set (entries w). back_redirect d (su_id usr) (startOf_day (utcOffset ev) sd)
                (endOf_day (utcOffset ev) ed) x)"
  shows "fst (outOfOfficeCreate ev usr input w) = Inr ()"
proof -
  have "find (own_conflict (su_id usr) (startOf_day (utcOffset ev) sd)
          (endOf_day (utcOffset ev) ed)) (entries w) = None"
    using assms(6) by (auto simp: find_None_iff own_conflict_def)
  moreover have "find (back_redirect d (su_id usr) (startOf_day (utcOffset ev) sd)
          (endOf_day (utcOffset ev) ed)) (entries w) = None"
    using assms(7) by (auto simp: find_None_iff)
  ultimately show ?thesis
    using assms(3-5) by (simp add: create_after_dates [OF assms(1,2)])
qed

text \<open>Every entry the handlers leave in the store has its start before its end.\<close>

lemma create_keeps_windows_wellformed:
  assumes "\<forall>x\<in>set (entries w). e_start x < e_end x"
  shows "\<forall>x\<in>set (entries (snd (outOfOfficeCreate ev usr input w))). e_start x < e_end x"
  using assms
  by (auto simp: outOfOfficeCreate_def Let_def notify_entries create_entry_def
           split: option.splits if_splits sum.splits
           dest: normalized_start_before_end)

lemma delete_keeps_windows_wellformed:
  assumes "\<forall>x\<in>set (entries w). e_start x < e_end x"
  shows "\<forall>x\<in>set (entries (snd (outOfOfficeEntryDelete usr uid w))). e_start x < e_end x"
  using assms
  by (auto simp: outOfOfficeEntryDelete_def split: option.splits)

section \<open>The claims\<close>

subsection \<open>C1: a window overlapping an entry of the caller\<close>




subsection \<open>C2: a delegate that redirects back to the caller\<close>

text \<open>
  C2, as written, says that every call naming a delegate who holds an entry redirecting
  back to the caller over a colliding window fails with \<open>InvalidInput\<close>. The
  self-conflict query runs before the infinite-redirect query: B made an entry of its own
  for 4 February, then A redirected to B for 1 to 5 February; B's attempt to redirect to
  A for 3 to 8 February fails with \<open>CONFLICT\<close>.
\<close>

theorem delegate_back_redirect_other_error:
  "entry_AB\<lparr>e_id := 2\<rparr> \<in> set (entries store_B_AB)
   \<and> e_userId (entry_AB\<lparr>e_id := 2\<rparr>) = 1
   \<and> e_toUserId (entry_AB\<lparr>e_id := 2\<rparr>) = Some (su_id ctx_B)
   \<and> collides_window (startOf_day 0 (feb 3)) (endOf_day 0 (feb 8)) (entry_AB\<lparr>e_id := 2\<rparr>)
   \<and> outOfOfficeCreate (utc_server (jan 25) ''u-2'') ctx_B
        (window (feb 3) (feb 8) (Some 1)) store_B_AB
       = (Inl (TRPCError CONFLICT ''out_of_office_entry_already_exists''), store_B_AB)
   \<and> \<not> fails_with InvalidInput (fst (outOfOfficeCreate (utc_server (jan 25) ''u-2'') ctx_B
        (window (feb 3) (feb 8) (Some 1)) store_B_AB))"
  by (simp add: handler_defs example_defs Let_def)

text \<open>
  C2 (amended): for a call naming a delegate, if the delegate holds an entry that
  redirects to the caller and satisfies the (inclusive) predicate of the infinite-redirect
  query against the new normalized window, the call fails and the store is unchanged, and
  it fails with \<open>BAD_REQUEST\<close>, infinite redirect, whenever the date checks pass, the
  delegate exists and no entry of the caller's own overlaps the window. If every entry
  of the delegate redirecting to the caller is a window lying wholly before or wholly
  after the new one, the call does not fail with the infinite-redirect error, and it
  succeeds when the earlier checks pass. The witness is the example of the claim: after
  A's redirect to B for 1 to 5 February, B's redirect to A for 3 to 8 February fails with
  the infinite-redirect error, and B's redirect to A for 1 to 5 March succeeds.
\<close>

theorem delegate_back_redirect_rejected:
  assumes "startDate input = Some sd" and "endDate input = Some ed"
    and "toTeamUserId input = Some d" and "d \<noteq> 0"
  shows
   "((\<exists>x\<in>set (entries w). e_userId x = d \<and> e_toUserId x = Some (su_id usr)
        \<and> collides_window (startOf_day (utcOffset ev) sd) (endOf_day (utcOffset ev) ed) x) \<longrightarrow>
       (\<exists>err. outOfOfficeCreate ev usr input w = (Inl err, w))
     \<and> (\<not> startOf_day (utcOffset ev) sd > endOf_day (utcOffset ev) ed
        \<and> \<not> startOf_day (utcOffset ev) sd < today_threshold ev
        \<and> (\<exists>u\<in>set (users w). u_id u = d)
        \<and> \<not> (\<exists>y\<in>set (entries w). e_userId y = su_id usr
              \<and> overlaps_window (startOf_day (utcOffset ev) sd) (endOf_day (utcOffset ev) ed) y)
        \<longrightarrow> outOfOfficeCreate ev usr input w
              = (Inl (TRPCError BAD_REQUEST ''booking_redirect_infinite_not_allowed''), w)))
  \<and> ((\<forall>x\<in>set (entries w). e_userId x = d \<and> e_toUserId x = Some (su_id usr) \<longrightarrow>
         e_start x \<le> e_end x
         \<and> (e_end x < startOf_day (utcOffset ev) sd \<or> endOf_day (utcOffset ev) ed < e_start x)) \<longrightarrow>
       fst (outOfOfficeCreate ev usr input w)
          \<noteq> Inl (TRPCError BAD_REQUEST ''booking_redirect_infinite_not_allowed'')
     \<and> (\<not> startOf_day (utcOffset ev) sd > endOf_day (utcOffset ev) ed
        \<and> \<not> startOf_day (utcOffset ev) sd < today_threshold ev
        \<and> (\<exists>u\<in>set (users w). u_id u = d)
        \<and> \<not> (\<exists>y\<in>set (entries w). e_userId y = su_id usr
              \<and> overlaps_window (startOf_day (utcOffset ev) sd) (endOf_day (utcOffset ev) ed) y)
        \<longrightarrow> fst (outOfOfficeCreate ev usr input w) = Inr ()))"
    (is "(?returning \<longrightarrow> ?fails \<and> (?pass \<longrightarrow> ?infinite)) \<and> (?apart \<longrightarrow> ?not_inf \<and> (?pass \<longrightarrow> ?ok))")
proof -
  let ?S = "startOf_day (utcOffset ev) sd" and ?E = "endOf_day (utcOffset ev) ed"
  have given: "given_id (toTeamUserId input)"
    using assms(3,4) by (simp add: given_id_def)
  have res: "resolve_delegate w (toTeamUserId input) = Inr d' \<Longrightarrow> d' = Some d" for d'
    using assms(3) given by (auto dest!: resolve_delegate_Inr)
  have found: "resolve_delegate w (toTeamUserId input) = Inr (Some d)" if "\<exists>u\<in>set (users w). u_id u = d"
    using that given assms(3) by (auto dest: resolve_delegate_found)
  have own_none: "find (own_conflict (su_id usr) ?S ?E) (entries w) = None"
    if "\<not> (\<exists>y\<in>set (entries w). e_userId y = su_id usr \<and> overlaps_window ?S ?E y)"
    using that by (auto simp: find_None_iff own_conflict_def)
  have 1: "?fails \<and> (?pass \<longrightarrow> ?infinite)" if "?returning"
  proof -
    from that obtain x where x: "x \<in> set (entries w)" "e_userId x = d"
      "e_toUserId x = Some (su_id usr)" "collides_window ?S ?E x" by blast
    have br: "back_redirect (Some d) (su_id usr) ?S ?E x"
      using x by (simp add: back_redirect_def)
    have ?fails
      using assms(1,2) x(1)
    proof (rule create_fails_on_back_redirect)
      fix d' assume "resolve_delegate w (toTeamUserId input) = Inr d'"
      with res br show "back_redirect d' (su_id usr) ?S ?E x" by simp
    qed
    moreover have ?infinite if ?pass
    proof -
      have "find (back_redirect (Some d) (su_id usr) ?S ?E) (entries w) \<noteq> None"
        using x(1) br by (rule find_hit)
      with that found own_none show ?thesis
        by (simp add: create_after_dates [OF assms(1,2)])
    qed
    ultimately show ?thesis by blast
  qed
  have 2: "?not_inf \<and> (?pass \<longrightarrow> ?ok)" if apart: ?apart
  proof -
    have none: "\<not> (\<exists>x\<in>set (entries w). back_redirect (Some d) (su_id usr) ?S ?E x)"
      using apart by (auto simp: back_redirect_def dest: disjoint_not_collides)
    have ?not_inf
    proof
      assume "fst (outOfOfficeCreate ev usr input w)
          = Inl (TRPCError BAD_REQUEST ''booking_redirect_infinite_not_allowed'')"
      from create_infinite_only_if [OF this] assms(1,2) res none show False
        by auto
    qed
    moreover have ?ok if ?pass
      using assms(1,2) that found none by (intro create_succeeds [where d = "Some d"]) auto
    ultimately show ?thesis by blast
  qed
  from 1 2 show ?thesis by blast
qed

theorem delegate_back_redirect_rejected_witness:
  "entry_AB \<in> set (entries store_AB) \<and> e_userId entry_AB = 1
   \<and> e_toUserId entry_AB = Some (su_id ctx_B)
   \<and> collides_window (startOf_day 0 (feb 3)) (endOf_day 0 (feb 8)) entry_AB
   \<and> outOfOfficeCreate (utc_server (jan 25) ''u-2'') ctx_B
        (window (feb 3) (feb 8) (Some 1)) store_AB
       = (Inl (TRPCError BAD_REQUEST ''booking_redirect_infinite_not_allowed''), store_AB)
   \<and> e_end entry_AB < startOf_day 0 (mar 1)
   \<and> fst (outOfOfficeCreate (utc_server (jan 25) ''u-2'') ctx_B
        (window (mar 1) (mar 5) (Some 1)) store_AB) = Inr ()"
proof -
  let ?ev = "utc_server (jan 25) ''u-2''"
  let ?near = "window (feb 3) (feb 8) (Some 1)" and ?far = "window (mar 1) (mar 5) (Some 1)"
  have n: "startDate ?near = Some (feb 3)" "endDate ?near = Some (feb 8)"
      "toTeamUserId ?near = Some 1" "(1::int) \<noteq> 0"
    and f: "startDate ?far = Some (mar 1)" "endDate ?far = Some (mar 5)"
      "toTeamUserId ?far = Some 1"
    by (simp_all add: window_def)
  have x: "entry_AB \<in> set (entries store_AB)" "e_userId entry_AB = 1"
      "e_toUserId entry_AB = Some (su_id ctx_B)"
      "collides_window (startOf_day (utcOffset ?ev) (feb 3)) (endOf_day (utcOffset ?ev) (feb 8))
         entry_AB"
    by (simp_all add: handler_defs example_defs)
  have pass_near: "\<not> startOf_day (utcOffset ?ev) (feb 3) > endOf_day (utcOffset ?ev) (feb 8)
        \<and> \<not> startOf_day (utcOffset ?ev) (feb 3) < today_threshold ?ev
        \<and> (\<exists>u\<in>set (users store_AB). u_id u = 1)
        \<and> \<not> (\<exists>y\<in>set (entries store_AB). e_userId y = su_id ctx_B
              \<and> overlaps_window (startOf_day (utcOffset ?ev) (feb 3))
                    (endOf_day (utcOffset ?ev) (feb 8)) y)"
    by (simp add: handler_defs example_defs)
  have pass_far: "\<not> startOf_day (utcOffset ?ev) (mar 1) > endOf_day (utcOffset ?ev) (mar 5)
        \<and> \<not> startOf_day (utcOffset ?ev) (mar 1) < today_threshold ?ev
        \<and> (\<exists>u\<in>set (users store_AB). u_id u = 1)
        \<and> \<not> (\<exists>y\<in>set (entries store_AB). e_userId y = su_id ctx_B
              \<and> overlaps_window (startOf_day (utcOffset ?ev) (mar 1))
                    (endOf_day (utcOffset ?ev) (mar 5)) y)"
    by (simp add: handler_defs example_defs)
  have apart: "\<forall>x\<in>set (entries store_AB). e_userId x = 1 \<and> e_toUserId x = Some (su_id ctx_B) \<longrightarrow>
         e_start x \<le> e_end x
         \<and> (e_end x < startOf_day (utcOffset ?ev) (mar 1)
            \<or> endOf_day (utcOffset ?ev) (mar 5) < e_start x)"
    and before: "e_end entry_AB < startOf_day (utcOffset ?ev) (mar 1)"
    by (simp_all add: handler_defs example_defs)
  from delegate_back_redirect_rejected [OF n, of store_AB ctx_B ?ev] x pass_near
  have a: "outOfOfficeCreate ?ev ctx_B ?near store_AB
       = (Inl (TRPCError BAD_REQUEST ''booking_redirect_infinite_not_allowed''), store_AB)"
    by blast
  from delegate_back_redirect_rejected [OF f n(4), of store_AB ctx_B ?ev] apart pass_far
  have b: "fst (outOfOfficeCreate ?ev ctx_B ?far store_AB) = Inr ()"
    by blast
  from a b x before show ?thesis by (simp add: utc_server_def)
qed

subsection \<open>C3: the future-dating check\<close>

text \<open>
  C3 says that a normalized start before "today at start-of-day, shifted back by the
  absolute value of the server's UTC offset" is rejected. \<open>utcOffset()\<close> is a number
  of minutes, and the handler subtracts \<open>Math.abs(offset) * 60\<close> minutes: sixty times
  the offset. On a server one hour east of UTC, at noon local time on 10 January, a window
  starting on 8 January local time is two days in the past and before the instant the
  claim names (local midnight of 10 January less one hour), yet the handler's instant is
  sixty hours before local midnight and the call succeeds.
\<close>

theorem past_start_accepted_east_of_utc:
  "startOf_day 60 (jan 8 - hours 1)
     < subtract_minutes (startOf_day 60 (jan 10 + hours 11)) \<bar>60\<bar>
   \<and> today_threshold (cet_server (jan 10 + hours 11) ''u-1'') = jan 7 + hours 11
   \<and> outOfOfficeCreate (cet_server (jan 10 + hours 11) ''u-1'') ctx_A
        (window (jan 8 - hours 1) (jan 9 - hours 1) None) store0
     = (Inr (), store0\<lparr>entries :=
          [\<lparr> e_id = 1, e_uuid = ''u-1'', e_start = jan 8 - hours 1,
              e_end = jan 10 - hours 1 - 1, e_userId = 1, e_toUserId = None,
              e_createdAt = jan 10 + hours 11, e_updatedAt = jan 10 + hours 11 \<rparr>],
          seq := 1\<rparr>)"
  by (simp add: handler_defs example_defs Let_def)

subsection \<open>C4: start after end\<close>

text \<open>
  C4: a call whose \<open>startDate\<close> is after its \<open>endDate\<close> fails with \<open>BAD_REQUEST\<close>
  (\<open>InvalidInput\<close>) and leaves the store unchanged. The dates are calendar dates, and the
  handler compares them as such: the normalized start is after the normalized end exactly
  when \<open>startDate\<close> falls on a later server-local calendar day than \<open>endDate\<close>. That
  is the case whenever \<open>startDate\<close> is after \<open>endDate\<close> and the two are on different
  days, and for two dates given as server-local midnights it is the same as \<open>startDate\<close>
  being after \<open>endDate\<close>.
\<close>

theorem start_after_end_rejected:
  assumes "startDate input = Some sd" and "endDate input = Some ed"
  shows "(startOf_day (utcOffset ev) sd > endOf_day (utcOffset ev) ed
            \<longleftrightarrow> local_day (utcOffset ev) sd > local_day (utcOffset ev) ed)
       \<and> (sd > ed \<and> local_day (utcOffset ev) sd \<noteq> local_day (utcOffset ev) ed \<longrightarrow>
            startOf_day (utcOffset ev) sd > endOf_day (utcOffset ev) ed)
       \<and> (startOf_day (utcOffset ev) sd = sd \<and> startOf_day (utcOffset ev) ed = ed \<longrightarrow>
            (sd > ed \<longleftrightarrow> startOf_day (utcOffset ev) sd > endOf_day (utcOffset ev) ed))
       \<and> (startOf_day (utcOffset ev) sd > endOf_day (utcOffset ev) ed \<longrightarrow>
            outOfOfficeCreate ev usr input w =
              (Inl (TRPCError BAD_REQUEST ''start_date_must_be_before_end_date''), w)
          \<and> fails_with InvalidInput (fst (outOfOfficeCreate ev usr input w))
          \<and> snd (outOfOfficeCreate ev usr input w) = w)"
proof -
  let ?off = "utcOffset ev"
  have later: "startOf_day ?off sd > endOf_day ?off ed" if "sd > ed"
    and "local_day ?off sd \<noteq> local_day ?off ed"
  proof -
    from that(1) have "local_day ?off ed \<le> local_day ?off sd"
      by (intro local_day_mono) simp
    with that(2) show ?thesis by (simp add: normalized_after_iff)
  qed
  have midnights: "sd > ed \<longleftrightarrow> startOf_day ?off sd > endOf_day ?off ed"
    if "startOf_day ?off sd = sd \<and> startOf_day ?off ed = ed"
  proof -
    from that have "ed < sd \<longleftrightarrow> local_day ?off ed < local_day ?off sd"
      by (intro day_aligned_less) simp_all
    then show ?thesis by (simp only: normalized_after_iff)
  qed
  show ?thesis
    using create_start_after_end [OF assms, of ev usr w] later midnights
    by (simp add: normalized_after_iff fails_with_def)
qed

theorem start_after_end_rejected_witness:
  "jan 20 > jan 12 \<and> startOf_day 0 (jan 20) = jan 20 \<and> startOf_day 0 (jan 12) = jan 12
   \<and> local_day 0 (jan 20) \<noteq> local_day 0 (jan 12)
   \<and> startOf_day 0 (jan 20) > endOf_day 0 (jan 12)
   \<and> outOfOfficeCreate (utc_server (jan 5) ''u-2'') ctx_A (window (jan 20) (jan 12) None) store_A
       = (Inl (TRPCError BAD_REQUEST ''start_date_must_be_before_end_date''), store_A)"
proof -
  let ?ev = "utc_server (jan 5) ''u-2''" and ?input = "window (jan 20) (jan 12) None"
  have h1: "startDate ?input = Some (jan 20)" and h2: "endDate ?input = Some (jan 12)"
    by (simp_all add: window_def)
  have dates: "jan 20 > jan 12" "startOf_day (utcOffset ?ev) (jan 20) = jan 20"
      "startOf_day (utcOffset ?ev) (jan 12) = jan 12"
      "local_day (utcOffset ?ev) (jan 20) \<noteq> local_day (utcOffset ?ev) (jan 12)"
    by (simp_all add: handler_defs example_defs)
  from start_after_end_rejected [OF h1 h2, of ?ev ctx_A store_A] dates
  have "startOf_day (utcOffset ?ev) (jan 20) > endOf_day (utcOffset ?ev) (jan 12)"
    and "outOfOfficeCreate ?ev ctx_A ?input store_A
       = (Inl (TRPCError BAD_REQUEST ''start_date_must_be_before_end_date''), store_A)"
    by blast+
  with dates show ?thesis by (simp add: utc_server_def)
qed

subsection \<open>C5: listing\<close>

text \<open>
  C5: for every caller and store, \<open>outOfOfficeEntriesList\<close> returns exactly the rows of
  the caller's entries whose end is at or after the current instant (as a multiset: each
  such entry once), ordered by start descending; no returned row ends before the current
  instant; and a row carries the entry's id, uuid, start, end and delegate identity, and
  the delegate's username.
\<close>

theorem list_returns_current_entries_newest_first:
  "mset (outOfOfficeEntriesList t usr w)
     = image_mset (select_row w)
         (filter_mset (\<lambda>x. e_userId x = su_id usr \<and> e_end x \<ge> t) (mset (entries w)))
   \<and> sorted_wrt (\<lambda>a b. r_start a \<ge> r_start b) (outOfOfficeEntriesList t usr w)
   \<and> (\<forall>r \<in> set (outOfOfficeEntriesList t usr w). \<not> r_end r < t)
   \<and> (\<forall>x. r_id (select_row w x) = e_id x \<and> r_uuid (select_row w x) = e_uuid x
          \<and> r_start (select_row w x) = e_start x \<and> r_end (select_row w x) = e_end x
          \<and> r_toUserId (select_row w x) = e_toUserId x
          \<and> r_toUser (select_row w x)
               = (case e_toUserId x of None \<Rightarrow> None
                  | Some d \<Rightarrow> map_option u_username (find (\<lambda>u. u_id u = d) (users w))))"
proof -
  let ?P = "\<lambda>x. e_userId x = su_id usr \<and> e_end x \<ge> t"
  have a: "mset (outOfOfficeEntriesList t usr w)
     = image_mset (select_row w) (filter_mset ?P (mset (entries w)))"
    by (simp add: outOfOfficeEntriesList_def)
  have "sorted_wrt (\<lambda>a b. e_start a \<ge> e_start b)
          (sort_key (\<lambda>x. - e_start x) (filter ?P (entries w)))"
    by (rule sorted_desc_sort_key)
  then have b: "sorted_wrt (\<lambda>a b. r_start a \<ge> r_start b) (outOfOfficeEntriesList t usr w)"
    by (simp add: outOfOfficeEntriesList_def sorted_wrt_map select_row_def)
  have c: "\<forall>r \<in> set (outOfOfficeEntriesList t usr w). \<not> r_end r < t"
    by (auto simp: outOfOfficeEntriesList_def select_row_def)
  show ?thesis using a b c by (simp add: select_row_def)
qed

theorem list_returns_current_entries_newest_first_witness:
  "outOfOfficeEntriesList (jan 12) ctx_A store_L = [row_AB, row_A]
   \<and> outOfOfficeEntriesList (jan 16) ctx_A store_L = [row_AB]
   \<and> \<not> r_end row_AB < jan 16
   \<and> sorted_wrt (\<lambda>a b. r_start a \<ge> r_start b) (outOfOfficeEntriesList (jan 12) ctx_A store_L)"
proof -
  have "outOfOfficeEntriesList (jan 12) ctx_A store_L = [row_AB, row_A]"
    and "outOfOfficeEntriesList (jan 16) ctx_A store_L = [row_AB]"
    by (simp_all add: handler_defs example_defs)
  then show ?thesis
    using list_returns_current_entries_newest_first [of "jan 16" ctx_A store_L]
      list_returns_current_entries_newest_first [of "jan 12" ctx_A store_L]
    by simp
qed

subsection \<open>C6: deleting\<close>

text \<open>
  C6: \<open>outOfOfficeEntryDelete\<close> fails with \<open>BAD_REQUEST\<close> (\<open>InvalidInput\<close>) when the
  identifier is missing (absent or empty); it fails with \<open>NOT_FOUND\<close> when no entry has
  both that uuid and the caller as owner; a failing call leaves the store, and so every
  user's listing, unchanged; and when the caller owns an entry with that uuid, the call
  succeeds and removes the entry with that uuid, leaving all others.
\<close>

theorem delete_contract:
  "(missing_uid uid \<longrightarrow>
      outOfOfficeEntryDelete usr uid w
        = (Inl (TRPCError BAD_REQUEST ''out_of_office_id_required''), w))
 \<and> (\<not> missing_uid uid
      \<and> \<not> (\<exists>x\<in>set (entries w). Some (e_uuid x) = uid \<and> e_userId x = su_id usr) \<longrightarrow>
      outOfOfficeEntryDelete usr uid w
        = (Inl (TRPCError NOT_FOUND ''booking_redirect_not_found''), w))
 \<and> (fst (outOfOfficeEntryDelete usr uid w) \<noteq> Inr () \<longrightarrow>
      snd (outOfOfficeEntryDelete usr uid w) = w
      \<and> (\<forall>t owner. outOfOfficeEntriesList t owner (snd (outOfOfficeEntryDelete usr uid w))
                     = outOfOfficeEntriesList t owner w))
 \<and> (\<not> missing_uid uid
      \<and> (\<exists>x\<in>set (entries w). Some (e_uuid x) = uid \<and> e_userId x = su_id usr) \<longrightarrow>
      fst (outOfOfficeEntryDelete usr uid w) = Inr ()
      \<and> entries (snd (outOfOfficeEntryDelete usr uid w))
           = filter (\<lambda>x. Some (e_uuid x) \<noteq> uid) (entries w)
      \<and> users (snd (outOfOfficeEntryDelete usr uid w)) = users w)"
  by (auto simp: outOfOfficeEntryDelete_def find_None_iff split: option.splits
           dest: find_SomeD)

theorem delete_contract_witness:
  "outOfOfficeEntryDelete ctx_A None store_L
     = (Inl (TRPCError BAD_REQUEST ''out_of_office_id_required''), store_L)
   \<and> outOfOfficeEntryDelete ctx_A (Some ''u-0'') store_L
     = (Inl (TRPCError NOT_FOUND ''booking_redirect_not_found''), store_L)
   \<and> outOfOfficeEntriesList (jan 12) ctx_B
        (snd (outOfOfficeEntryDelete ctx_A (Some ''u-0'') store_L))
     = outOfOfficeEntriesList (jan 12) ctx_B store_L
   \<and> map r_uuid (outOfOfficeEntriesList (jan 12) ctx_B store_L) = [''u-0'']
   \<and> fst (outOfOfficeEntryDelete ctx_B (Some ''u-0'') store_L) = Inr ()
   \<and> map e_uuid (entries (snd (outOfOfficeEntryDelete ctx_B (Some ''u-0'') store_L)))
     = [''u-1'', ''u-2'']"
proof -
  have m: "missing_uid None" "\<not> missing_uid (Some ''u-0'')"
    by (simp_all add: missing_uid_def)
  have other: "\<not> (\<exists>x\<in>set (entries store_L). Some (e_uuid x) = Some ''u-0''
                   \<and> e_userId x = su_id ctx_A)"
    by (simp add: example_defs)
  have own: "\<exists>x\<in>set (entries store_L). Some (e_uuid x) = Some ''u-0''
                   \<and> e_userId x = su_id ctx_B"
    by (simp add: example_defs)
  have listed: "map r_uuid (outOfOfficeEntriesList (jan 12) ctx_B store_L) = [''u-0'']"
    by (simp add: handler_defs example_defs)
  have kept: "map e_uuid (filter (\<lambda>x. Some (e_uuid x) \<noteq> Some ''u-0'') (entries store_L))
      = [''u-1'', ''u-2'']"
    by (simp add: example_defs)
  show ?thesis
    using delete_contract [of None ctx_A store_L]
      delete_contract [of "Some ''u-0''" ctx_A store_L]
      delete_contract [of "Some ''u-0''" ctx_B store_L] m other own listed kept
    by simp
qed

subsection \<open>C7: resolving the delegate\<close>

text \<open>
  C7, as written, says that every call giving a \<open>toTeamUserId\<close> that no user has fails
  with \<open>NotFound\<close> and inserts nothing. Three calls on a store without such a user do
  otherwise. The date checks run before the lookup: with a start on 20 January and an end
  on 12 January the call fails with \<open>BAD_REQUEST\<close>. The handler tests
  \<open>if (input.toTeamUserId)\<close>, which \<open>0\<close> fails: with \<open>toTeamUserId\<close> 0 there is no
  lookup, and the call succeeds and inserts an entry without a delegate. And for an
  identity outside the 32-bit range of the id column the lookup itself throws Prisma's
  \<open>P2020\<close>, not \<open>NOT_FOUND\<close>.
\<close>

theorem unknown_delegate_other_outcomes:
  "\<not> (\<exists>u\<in>set (users store0). u_id u = 99 \<or> u_id u = 0 \<or> u_id u = 2147483648)
   \<and> outOfOfficeCreate (utc_server (jan 5) ''u-1'') ctx_A
        (window (jan 20) (jan 12) (Some 99)) store0
       = (Inl (TRPCError BAD_REQUEST ''start_date_must_be_before_end_date''), store0)
   \<and> \<not> fails_with NotFound (fst (outOfOfficeCreate (utc_server (jan 5) ''u-1'') ctx_A
        (window (jan 20) (jan 12) (Some 99)) store0))
   \<and> outOfOfficeCreate (utc_server (jan 5) ''u-1'') ctx_A
        (window (jan 12) (jan 20) (Some 0)) store0
       = (Inr (), store0\<lparr>entries :=
            [\<lparr> e_id = 1, e_uuid = ''u-1'', e_start = jan 12, e_end = jan 21 - 1,
                e_userId = 1, e_toUserId = None, e_createdAt = jan 5, e_updatedAt = jan 5 \<rparr>],
            seq := 1\<rparr>)
   \<and> outOfOfficeCreate (utc_server (jan 5) ''u-1'') ctx_A
        (window (jan 12) (jan 20) (Some 2147483648)) store0
       = (Inl (PrismaClientKnownRequestError ''P2020''), store0)
   \<and> \<not> fails_with NotFound (fst (outOfOfficeCreate (utc_server (jan 5) ''u-1'') ctx_A
        (window (jan 12) (jan 20) (Some 2147483648)) store0))"
  by (simp add: handler_defs example_defs Let_def)

text \<open>
  C7 (amended): for a call whose \<open>toTeamUserId\<close> is a non-zero identity, if no user has
  that identity the call fails and the store is unchanged, and when the identity is
  within the 32-bit range of the id column, both dates are present and the two date
  checks pass, it fails with \<open>NOT_FOUND\<close>; if the call succeeds, the entry it appends
  is owned by the caller and has that user, who exists, as its delegate.
\<close>

theorem unknown_delegate_not_found:
  assumes "toTeamUserId input = Some d" and "d \<noteq> 0"
  shows "(\<not> (\<exists>u\<in>set (users w). u_id u = d) \<longrightarrow>
            (\<exists>err. outOfOfficeCreate ev usr input w = (Inl err, w))
          \<and> (in_int4 d \<longrightarrow>
              (\<forall>sd ed. startDate input = Some sd \<and> endDate input = Some ed
                \<and> \<not> startOf_day (utcOffset ev) sd > endOf_day (utcOffset ev) ed
                \<and> \<not> startOf_day (utcOffset ev) sd < today_threshold ev
                \<longrightarrow> outOfOfficeCreate ev usr input w
                      = (Inl (TRPCError NOT_FOUND ''user_not_found''), w))))
       \<and> (fst (outOfOfficeCreate ev usr input w) = Inr () \<longrightarrow>
            (\<exists>x. entries (snd (outOfOfficeCreate ev usr input w)) = entries w @ [x]
                \<and> e_userId x = su_id usr \<and> e_toUserId x = Some d
                \<and> (\<exists>u\<in>set (users w). u_id u = d)))"
proof (intro conjI impI)
  have given: "given_id (toTeamUserId input)"
    using assms by (simp add: given_id_def)
  {
    assume "\<not> (\<exists>u\<in>set (users w). u_id u = d)"
    then have missing: "\<not> (\<exists>u\<in>set (users w). Some (u_id u) = toTeamUserId input)"
      using assms(1) by simp
    from resolve_delegate_no_user [OF given missing]
    show "\<exists>err. outOfOfficeCreate ev usr input w = (Inl err, w)"
      by (auto simp: outOfOfficeCreate_def Let_def split: option.splits)
    assume "in_int4 d"
    then have "fits_id_column (toTeamUserId input)"
      using assms(1) by (simp add: fits_id_column_def)
    from resolve_delegate_missing [OF given this missing]
    show "\<forall>sd ed. startDate input = Some sd \<and> endDate input = Some ed
                \<and> \<not> startOf_day (utcOffset ev) sd > endOf_day (utcOffset ev) ed
                \<and> \<not> startOf_day (utcOffset ev) sd < today_threshold ev
                \<longrightarrow> outOfOfficeCreate ev usr input w
                      = (Inl (TRPCError NOT_FOUND ''user_not_found''), w)"
      by (simp add: outOfOfficeCreate_def Let_def)
  }
  assume "fst (outOfOfficeCreate ev usr input w) = Inr ()"
  from create_success [OF this] obtain sd ed d' where
    res: "resolve_delegate w (toTeamUserId input) = Inr d'"
    and ent: "entries (snd (outOfOfficeCreate ev usr input w))
               = entries w @ [create_entry ev (su_id usr) sd ed d' w]"
    by blast
  from resolve_delegate_Inr [OF res] given assms(1)
  have "d' = Some d" "\<exists>u\<in>set (users w). u_id u = d"
    by auto
  with ent show "\<exists>x. entries (snd (outOfOfficeCreate ev usr input w)) = entries w @ [x]
                \<and> e_userId x = su_id usr \<and> e_toUserId x = Some d
                \<and> (\<exists>u\<in>set (users w). u_id u = d)"
    by (simp add: create_entry_def)
qed

theorem unknown_delegate_not_found_witness:
  "(99::int) \<noteq> 0 \<and> in_int4 99 \<and> \<not> (\<exists>u\<in>set (users store0). u_id u = 99)
   \<and> outOfOfficeCreate (utc_server (jan 5) ''u-1'') ctx_A
        (window (jan 12) (jan 20) (Some 99)) store0
       = (Inl (TRPCError NOT_FOUND ''user_not_found''), store0)
   \<and> fst (outOfOfficeCreate (utc_server (jan 20) ''u-1'') ctx_A
             (window (feb 1) (feb 5) (Some 2)) store0) = Inr ()
   \<and> map e_toUserId (entries (snd (outOfOfficeCreate (utc_server (jan 20) ''u-1'') ctx_A
             (window (feb 1) (feb 5) (Some 2)) store0))) = [Some 2]"
proof -
  let ?ev = "utc_server (jan 5) ''u-1''" and ?input = "window (jan 12) (jan 20) (Some 99)"
  let ?ev' = "utc_server (jan 20) ''u-1''" and ?input' = "window (feb 1) (feb 5) (Some 2)"
  have g: "toTeamUserId ?input = Some 99" "(99::int) \<noteq> 0"
    and g': "toTeamUserId ?input' = Some 2" "(2::int) \<noteq> 0"
    by (simp_all add: window_def)
  have missing: "\<not> (\<exists>u\<in>set (users store0). u_id u = 99)" and range: "in_int4 99"
    by (simp_all add: example_defs in_int4_def)
  have pass: "startDate ?input = Some (jan 12) \<and> endDate ?input = Some (jan 20)
                \<and> \<not> startOf_day (utcOffset ?ev) (jan 12) > endOf_day (utcOffset ?ev) (jan 20)
                \<and> \<not> startOf_day (utcOffset ?ev) (jan 12) < today_threshold ?ev"
    by (simp add: handler_defs example_defs)
  from unknown_delegate_not_found [OF g, of store0 ?ev ctx_A] missing range pass
  have a: "outOfOfficeCreate ?ev ctx_A ?input store0
       = (Inl (TRPCError NOT_FOUND ''user_not_found''), store0)"
    by blast
  have ok: "fst (outOfOfficeCreate ?ev' ctx_A ?input' store0) = Inr ()"
    by (simp add: store_AB_reached)
  from unknown_delegate_not_found [OF g', of store0 ?ev' ctx_A] ok
  obtain x where "entries (snd (outOfOfficeCreate ?ev' ctx_A ?input' store0)) = entries store0 @ [x]"
    and "e_toUserId x = Some 2"
    by blast
  then have b: "map e_toUserId (entries (snd (outOfOfficeCreate ?ev' ctx_A ?input' store0)))
      = [Some 2]"
    by (simp add: store0_def)
  from a b ok missing range show ?thesis by simp
qed

subsection \<open>C8: a created entry is listed\<close>

text \<open>
  C8: after a call of \<open>outOfOfficeCreate\<close> that succeeds, \<open>outOfOfficeEntriesList\<close>
  for the same caller, at any current instant up to the entry's end, returns a row whose
  start is \<open>startDate\<close> at start-of-day and whose end is \<open>endDate\<close> at end-of-day
  (the row with the new uuid).
\<close>

theorem created_entry_is_listed:
  assumes "fst (outOfOfficeCreate ev usr input w) = Inr ()"
  shows "\<exists>sd ed. startDate input = Some sd \<and> endDate input = Some ed
          \<and> (\<forall>t. t \<le> endOf_day (utcOffset ev) ed \<longrightarrow>
               (\<exists>r\<in>set (outOfOfficeEntriesList t usr (snd (outOfOfficeCreate ev usr input w))).
                   r_start r = startOf_day (utcOffset ev) sd
                 \<and> r_end r = endOf_day (utcOffset ev) ed
                 \<and> r_uuid r = uuidv4 ev))"
proof -
  from create_success [OF assms] obtain sd ed d where
    dates: "startDate input = Some sd" "endDate input = Some ed"
    and ent: "entries (snd (outOfOfficeCreate ev usr input w))
               = entries w @ [create_entry ev (su_id usr) sd ed d w]"
    by blast
  let ?w' = "snd (outOfOfficeCreate ev usr input w)"
  let ?x = "create_entry ev (su_id usr) sd ed d w"
  have "select_row ?w' ?x \<in> set (outOfOfficeEntriesList t usr ?w')"
    if "t \<le> endOf_day (utcOffset ev) ed" for t
    using that ent by (simp add: outOfOfficeEntriesList_def create_entry_def)
  moreover have "r_start (select_row ?w' ?x) = startOf_day (utcOffset ev) sd"
    "r_end (select_row ?w' ?x) = endOf_day (utcOffset ev) ed"
    "r_uuid (select_row ?w' ?x) = uuidv4 ev"
    by (simp_all add: select_row_def create_entry_def)
  ultimately show ?thesis using dates by metis
qed

theorem created_entry_is_listed_witness:
  "fst (outOfOfficeCreate (utc_server (jan 20) ''u-1'') ctx_A
          (window (feb 1 + hours 9) (feb 5 + hours 17) (Some 2)) store0) = Inr ()
   \<and> jan 25 \<le> endOf_day 0 (feb 5 + hours 17)
   \<and> outOfOfficeEntriesList (jan 25) ctx_A
        (snd (outOfOfficeCreate (utc_server (jan 20) ''u-1'') ctx_A
          (window (feb 1 + hours 9) (feb 5 + hours 17) (Some 2)) store0))
      = [\<lparr> r_id = 1, r_uuid = ''u-1'', r_start = startOf_day 0 (feb 1 + hours 9),
           r_end = endOf_day 0 (feb 5 + hours 17), r_toUserId = Some 2,
           r_toUser = Some (Some ''bob'') \<rparr>]
   \<and> startOf_day 0 (feb 1 + hours 9) = feb 1 \<and> endOf_day 0 (feb 5 + hours 17) = feb 6 - 1"
proof -
  let ?ev = "utc_server (jan 20) ''u-1''"
  let ?input = "window (feb 1 + hours 9) (feb 5 + hours 17) (Some 2)"
  have ok: "fst (outOfOfficeCreate ?ev ctx_A ?input store0) = Inr ()"
    by (simp add: handler_defs example_defs Let_def)
  have rest: "jan 25 \<le> endOf_day 0 (feb 5 + hours 17)"
    "outOfOfficeEntriesList (jan 25) ctx_A (snd (outOfOfficeCreate ?ev ctx_A ?input store0))
      = [\<lparr> r_id = 1, r_uuid = ''u-1'', r_start = startOf_day 0 (feb 1 + hours 9),
           r_end = endOf_day 0 (feb 5 + hours 17), r_toUserId = Some 2,
           r_toUser = Some (Some ''bob'') \<rparr>]"
    "startOf_day 0 (feb 1 + hours 9) = feb 1" "endOf_day 0 (feb 5 + hours 17) = feb 6 - 1"
    by (simp_all add: handler_defs example_defs Let_def)
  from created_entry_is_listed [OF ok] ok rest show ?thesis by simp
qed

subsection \<open>C9: the infinite-redirect query without a delegate\<close>

text \<open>
  C9, as written, says that every call without a delegate, when some user holds an entry
  redirecting to the caller over a colliding window, fails with \<open>InvalidInput\<close>,
  infinite redirect. The self-conflict query runs first: A has an entry of its own for
  1 to 5 February and C redirects to A for the same days; A's attempt for 3 to 4 February
  without a delegate fails with \<open>CONFLICT\<close>.
\<close>

theorem cycle_check_without_delegate_other_error:
  "\<not> given_id None \<and> entry_CA\<lparr>e_id := 2\<rparr> \<in> set (entries store_A_CA)
   \<and> e_toUserId (entry_CA\<lparr>e_id := 2\<rparr>) = Some (su_id ctx_A)
   \<and> collides_window (startOf_day 0 (feb 3)) (endOf_day 0 (feb 4)) (entry_CA\<lparr>e_id := 2\<rparr>)
   \<and> outOfOfficeCreate (utc_server (jan 25) ''u-2'') ctx_A (window (feb 3) (feb 4) None)
        store_A_CA
       = (Inl (TRPCError CONFLICT ''out_of_office_entry_already_exists''), store_A_CA)
   \<and> \<not> fails_with InvalidInput (fst (outOfOfficeCreate (utc_server (jan 25) ''u-2'') ctx_A
        (window (feb 3) (feb 4) None) store_A_CA))"
  by (simp add: handler_defs example_defs Let_def)

text \<open>
  C9 (amended): for a call in which \<open>toTeamUserId\<close> is not given, if an entry of any
  owner redirects to the caller and satisfies the (inclusive) predicate of the
  infinite-redirect query against the new normalized window, the call fails and the store
  is unchanged, and it fails with \<open>BAD_REQUEST\<close>, infinite redirect, whenever the date
  checks pass and no entry of the caller's own overlaps the window. In the witness the
  entry is C's, and A names no delegate.
\<close>

theorem cycle_check_without_delegate:
  assumes "startDate input = Some sd" and "endDate input = Some ed"
    and "\<not> given_id (toTeamUserId input)"
    and "x \<in> set (entries w)" and "e_toUserId x = Some (su_id usr)"
    and "collides_window (startOf_day (utcOffset ev) sd) (endOf_day (utcOffset ev) ed) x"
  shows "(\<exists>err. outOfOfficeCreate ev usr input w = (Inl err, w))
       \<and> (\<not> startOf_day (utcOffset ev) sd > endOf_day (utcOffset ev) ed
          \<and> \<not> startOf_day (utcOffset ev) sd < today_threshold ev
          \<and> \<not> (\<exists>y\<in>set (entries w). e_userId y = su_id usr
                \<and> overlaps_window (startOf_day (utcOffset ev) sd) (endOf_day (utcOffset ev) ed) y)
          \<longrightarrow> outOfOfficeCreate ev usr input w
                = (Inl (TRPCError BAD_REQUEST ''booking_redirect_infinite_not_allowed''), w))"
proof -
  let ?S = "startOf_day (utcOffset ev) sd" and ?E = "endOf_day (utcOffset ev) ed"
  have res: "resolve_delegate w (toTeamUserId input) = Inr None"
    using assms(3) by (rule resolve_delegate_absent)
  have br: "back_redirect None (su_id usr) ?S ?E x"
    using assms(5,6) by (simp add: back_redirect_def)
  have "\<exists>err. outOfOfficeCreate ev usr input w = (Inl err, w)"
    using assms(1,2,4)
  proof (rule create_fails_on_back_redirect)
    fix d assume "resolve_delegate w (toTeamUserId input) = Inr d"
    with res br show "back_redirect d (su_id usr) ?S ?E x" by simp
  qed
  moreover have "outOfOfficeCreate ev usr input w
      = (Inl (TRPCError BAD_REQUEST ''booking_redirect_infinite_not_allowed''), w)"
    if pass: "\<not> ?S > ?E \<and> \<not> ?S < today_threshold ev
          \<and> \<not> (\<exists>y\<in>set (entries w). e_userId y = su_id usr \<and> overlaps_window ?S ?E y)"
  proof -
    have "find (own_conflict (su_id usr) ?S ?E) (entries w) = None"
      using pass by (auto simp: find_None_iff own_conflict_def)
    moreover have "find (back_redirect None (su_id usr) ?S ?E) (entries w) \<noteq> None"
      using assms(4) br by (rule find_hit)
    ultimately show ?thesis
      using pass res by (simp add: create_after_dates [OF assms(1,2)])
  qed
  ultimately show ?thesis by blast
qed

theorem cycle_check_without_delegate_witness:
  "\<not> given_id None \<and> entry_CA \<in> set (entries store_CA) \<and> e_userId entry_CA = 3
   \<and> e_toUserId entry_CA = Some (su_id ctx_A)
   \<and> collides_window (startOf_day 0 (feb 3)) (endOf_day 0 (feb 4)) entry_CA
   \<and> outOfOfficeCreate (utc_server (jan 25) ''u-2'') ctx_A (window (feb 3) (feb 4) None) store_CA
       = (Inl (TRPCError BAD_REQUEST ''booking_redirect_infinite_not_allowed''), store_CA)"
proof -
  let ?ev = "utc_server (jan 25) ''u-2''" and ?input = "window (feb 3) (feb 4) None"
  have h: "startDate ?input = Some (feb 3)" "endDate ?input = Some (feb 4)"
      "\<not> given_id (toTeamUserId ?input)"
      "entry_CA \<in> set (entries store_CA)" "e_toUserId entry_CA = Some (su_id ctx_A)"
      "collides_window (startOf_day (utcOffset ?ev) (feb 3)) (endOf_day (utcOffset ?ev) (feb 4))
         entry_CA"
    and o: "e_userId entry_CA = 3" "\<not> given_id None"
    by (simp_all add: handler_defs example_defs)
  have pass: "\<not> startOf_day (utcOffset ?ev) (feb 3) > endOf_day (utcOffset ?ev) (feb 4)
          \<and> \<not> startOf_day (utcOffset ?ev) (feb 3) < today_threshold ?ev
          \<and> \<not> (\<exists>y\<in>set (entries store_CA). e_userId y = su_id ctx_A
                \<and> overlaps_window (startOf_day (utcOffset ?ev) (feb 3))
                      (endOf_day (utcOffset ?ev) (feb 4)) y)"
    by (simp add: handler_defs example_defs)
  from cycle_check_without_delegate [OF h] pass
  have "outOfOfficeCreate ?ev ctx_A ?input store_CA
       = (Inl (TRPCError BAD_REQUEST ''booking_redirect_infinite_not_allowed''), store_CA)"
    by blast
  with h o show ?thesis by (simp add: utc_server_def)
qed

subsection \<open>C10: the two window predicates\<close>

text \<open>
  C10: for a stored window with start at or before end (every entry the handler inserts
  has start before end), the three-branch predicate of the self-conflict query is
  equivalent to its first branch, \<open>start < newEnd\<close> and \<open>end > newStart\<close>; a stored
  window that shares only a boundary instant with the new one (it ends where the new one
  starts, or starts where the new one ends) does not satisfy it; the predicate of the
  infinite-redirect query, whose comparisons are inclusive, holds for such a pair.
\<close>

theorem three_way_overlap_is_strict_overlap:
  assumes "e_start x \<le> e_end x"
  shows "(overlaps_window s e x \<longleftrightarrow> e_start x < e \<and> e_end x > s)
       \<and> (e_end x = s \<or> e_start x = e \<longrightarrow> \<not> overlaps_window s e x)
       \<and> (s \<le> e \<and> (e_end x = s \<or> e_start x = e) \<longrightarrow> collides_window s e x)"
  using assms by (auto simp: overlaps_window_def collides_window_def)

theorem three_way_overlap_is_strict_overlap_witness:
  "e_start entry_A \<le> e_end entry_A
   \<and> e_end entry_A = jan 16 - 1 \<and> jan 16 - 1 \<le> jan 20
   \<and> \<not> overlaps_window (jan 16 - 1) (jan 20) entry_A
   \<and> collides_window (jan 16 - 1) (jan 20) entry_A
   \<and> overlaps_window (jan 12) (jan 20) entry_A"
proof -
  have h: "e_start entry_A \<le> e_end entry_A"
    and b: "e_end entry_A = jan 16 - 1" "jan 16 - 1 \<le> jan 20"
    and c: "e_start entry_A < jan 20 \<and> e_end entry_A > jan 12"
    by (simp_all add: example_defs)
  show ?thesis
    using three_way_overlap_is_strict_overlap [OF h, of "jan 16 - 1" "jan 20"]
      three_way_overlap_is_strict_overlap [OF h, of "jan 12" "jan 20"] h b c
    by simp
qed

end
